theory Spec2Isabelle
  imports Main "HOL-Library.Word" "HOL-Library.Sublist"
begin

section \<open>Exceptions\<close>

text \<open>
  The exceptions that drive control flow in \<^verbatim>\<open>backend/core/downloader.py\<close>.
  \<open>ClientError\<close> stands for \<^verbatim>\<open>aiohttp.ClientError\<close> and carries the text of
  \<^verbatim>\<open>str(e)\<close>; \<open>ClientResponseError\<close> is the subclass the downloader raises itself
  on an unexpected status (status, URL); \<open>TimeoutError\<close> is \<^verbatim>\<open>asyncio.TimeoutError\<close>.
  \<open>DownloadFailedError\<close> (url, reason, retries) and \<open>DownloadTimeoutError\<close>
  (url, timeout_seconds) are the classes of \<^verbatim>\<open>backend/core/exceptions.py\<close>; they derive
  from \<^verbatim>\<open>OSINTPipelineError(Exception)\<close>, not from the aiohttp or asyncio classes.
  \<open>AttributeError\<close> is what the look-up of a name that a module does not have raises.
\<close>

datatype exn =
    ValueError string
  | ClientError string
  | ClientResponseError nat string
  | TimeoutError
  | DownloadFailedError string string int
  | DownloadTimeoutError string int
  | FileNotFoundError string
  | IntegrityError string
  | CancelledError
  | AttributeError string

text \<open>\<^verbatim>\<open>except asyncio.TimeoutError\<close> and \<^verbatim>\<open>except aiohttp.ClientError\<close>.\<close>

fun is_timeout :: "exn \<Rightarrow> bool" where
  "is_timeout TimeoutError = True"
| "is_timeout _ = False"

fun is_client_error :: "exn \<Rightarrow> bool" where
  "is_client_error (ClientError _) = True"
| "is_client_error (ClientResponseError _ _) = True"
| "is_client_error _ = False"

section \<open>Paths\<close>

text \<open>
  A \<^verbatim>\<open>pathlib.Path\<close> on POSIX: whether it is anchored at the root, and its components.
  Parsing has already dropped empty and \<^verbatim>\<open>.\<close> components; \<^verbatim>\<open>..\<close> components are kept.
\<close>

record Path =
  is_absolute :: bool
  parts :: "string list"

fun join_parts :: "string list \<Rightarrow> string" where
  "join_parts [] = []"
| "join_parts [p] = p"
| "join_parts (p # q # ps) = p @ ''/'' @ join_parts (q # ps)"

text \<open>\<^verbatim>\<open>str(path)\<close>: the empty relative path prints as a dot.\<close>

definition str_path :: "Path \<Rightarrow> string" where
  "str_path p =
     (if is_absolute p then ''/'' @ join_parts (parts p)
      else if parts p = [] then ''.'' else join_parts (parts p))"

text \<open>\<^verbatim>\<open>base / other\<close>: an absolute right operand replaces the left one.\<close>

definition truediv :: "Path \<Rightarrow> Path \<Rightarrow> Path" where
  "truediv base other =
     (if is_absolute other then other
      else \<lparr>is_absolute = is_absolute base, parts = parts base @ parts other\<rparr>)"

text \<open>
  \<^verbatim>\<open>path.resolve()\<close> on a file system without symbolic links: a relative path is
  taken below the working directory \<open>cwd\<close> (the components of an absolute, normalised
  directory), and each \<^verbatim>\<open>..\<close> removes the component before it (at the root it is
  dropped).
\<close>

fun normalise :: "string list \<Rightarrow> string list \<Rightarrow> string list" where
  "normalise acc [] = acc"
| "normalise acc (p # ps) =
     (if p = ''..'' then normalise (butlast acc) ps else normalise (acc @ [p]) ps)"

definition resolve :: "string list \<Rightarrow> Path \<Rightarrow> Path" where
  "resolve cwd p =
     \<lparr>is_absolute = True,
      parts = normalise [] (if is_absolute p then parts p else cwd @ parts p)\<rparr>"

text \<open>
  \<^verbatim>\<open>path.relative_to(base)\<close>: the remaining components when \<open>base\<close> has the same
  anchor and its components are a prefix of the path's, \<open>None\<close> for the \<^verbatim>\<open>ValueError\<close>
  it raises otherwise. The comparison is on the components as they stand: \<open>base\<close> is not
  resolved.
\<close>

definition relative_to :: "Path \<Rightarrow> Path \<Rightarrow> string list option" where
  "relative_to p base =
     (if is_absolute p = is_absolute base \<and> prefix (parts base) (parts p)
      then Some (drop (length (parts base)) (parts p)) else None)"

text \<open>\<^verbatim>\<open>path.parent\<close>.\<close>

definition parent :: "Path \<Rightarrow> Path" where
  "parent p = p\<lparr>parts := butlast (parts p)\<rparr>"

subsection \<open>The path sanitizer\<close>

text \<open>
  \<^verbatim>\<open>sanitize_path(dest_path, allowed_base)\<close>. The test \<^verbatim>\<open>".." in str(dest_path)\<close> is a
  substring test on the printed path.
\<close>

definition sanitize_path :: "string list \<Rightarrow> Path \<Rightarrow> Path \<Rightarrow> exn + Path" where
  "sanitize_path cwd dest_path allowed_base =
     (let resolved = resolve cwd (truediv allowed_base dest_path) in
      if sublist ''..'' (str_path dest_path) \<or> is_absolute dest_path
      then Inl (ValueError (''Path traversal attempt detected: '' @ str_path dest_path))
      else (case relative_to resolved allowed_base of
              None \<Rightarrow> Inl (ValueError (''Path '' @ str_path dest_path @
                        '' escapes allowed directory '' @ str_path allowed_base))
            | Some _ \<Rightarrow> Inr resolved))"

section \<open>Tasks and the ledger\<close>

datatype DownloadStatus = PENDING | DOWNLOADING | PAUSED | COMPLETED | FAILED | DUPLICATE

text \<open>
  The dataclass \<^verbatim>\<open>DownloadTask\<close> (its field \<^verbatim>\<open>id\<close> is \<open>task_id\<close> here). Timestamps are
  readings of the store's clock.
\<close>

record DownloadTask =
  task_id :: "nat option"
  source_url :: string
  local_filepath :: string
  status :: DownloadStatus
  bytes_downloaded :: int
  total_bytes :: "int option"
  sha256_hash :: "string option"
  retry_count :: int
  error_message :: "string option"
  created_at :: "nat option"
  updated_at :: "nat option"

text \<open>
  The table \<^verbatim>\<open>download_tasks\<close>: its rows in insertion order, each held as the
  \<^verbatim>\<open>DownloadTask\<close> that \<^verbatim>\<open>_row_to_task\<close> builds from it, and the last value of the
  \<^verbatim>\<open>AUTOINCREMENT\<close> sequence.
\<close>

record Ledger =
  rows :: "DownloadTask list"
  last_rowid :: nat

text \<open>
  \<^verbatim>\<open>create_task\<close>: the \<^verbatim>\<open>INSERT\<close> names three columns, the others take their
  defaults; \<^verbatim>\<open>source_url\<close> is \<^verbatim>\<open>UNIQUE\<close>. The task returned is built from the
  arguments and the new row id, its other fields are the dataclass defaults.
\<close>

definition create_task :: "string \<Rightarrow> string \<Rightarrow> nat \<Rightarrow> Ledger \<Rightarrow> exn + (DownloadTask \<times> Ledger)" where
  "create_task url filepath now L =
     (if url \<in> set (map source_url (rows L))
      then Inl (IntegrityError ''UNIQUE constraint failed: download_tasks.source_url'')
      else
        let i = Suc (last_rowid L);
            row = \<lparr>task_id = Some i, source_url = url, local_filepath = filepath,
                   status = PENDING, bytes_downloaded = 0, total_bytes = None,
                   sha256_hash = None, retry_count = 0, error_message = None,
                   created_at = Some now, updated_at = Some now\<rparr>;
            task = \<lparr>task_id = Some i, source_url = url, local_filepath = filepath,
                    status = PENDING, bytes_downloaded = 0, total_bytes = None,
                    sha256_hash = None, retry_count = 0, error_message = None,
                    created_at = None, updated_at = None\<rparr>
        in Inr (task, \<lparr>rows = rows L @ [row], last_rowid = i\<rparr>))"

text \<open>
  The look-ups. Each of them sets \<^verbatim>\<open>db.row_factory = aiohttp.NamedTupleRow\<close> before its
  query. The module \<^verbatim>\<open>aiohttp\<close> is not part of the repository: whether it has such an
  attribute is the parameter \<open>has_row_factory\<close>. Without it the assignment raises
  \<^verbatim>\<open>AttributeError\<close> and no query is made; no release of aiohttp has the attribute, so
  this is the program as it is shipped. With it, the attribute is a row factory whose
  rows have the columns as attributes, as \<^verbatim>\<open>_row_to_task\<close> reads them, and
  \<^verbatim>\<open>fetchone\<close> yields the first matching row.
\<close>

definition row_factory_error :: exn where
  "row_factory_error =
     AttributeError (''module '' @ [CHR 39] @ ''aiohttp'' @ [CHR 39] @ '' has no attribute '' @
                     [CHR 39] @ ''NamedTupleRow'' @ [CHR 39])"

definition get_task_by_url :: "bool \<Rightarrow> Ledger \<Rightarrow> string \<Rightarrow> exn + DownloadTask option" where
  "get_task_by_url has_row_factory L url =
     (if has_row_factory then Inr (find (\<lambda>r. source_url r = url) (rows L))
      else Inl row_factory_error)"

definition get_task_by_hash :: "bool \<Rightarrow> Ledger \<Rightarrow> string \<Rightarrow> exn + DownloadTask option" where
  "get_task_by_hash has_row_factory L hash_value =
     (if has_row_factory
      then Inr (find (\<lambda>r. sha256_hash r = Some hash_value \<and> status r = COMPLETED) (rows L))
      else Inl row_factory_error)"

text \<open>
  \<^verbatim>\<open>update_task\<close>: one \<^verbatim>\<open>UPDATE ... SET ... WHERE source_url = ?\<close>. \<open>write_row\<close> is
  the \<^verbatim>\<open>SET\<close> list applied to one row.
\<close>

definition write_row :: "DownloadTask \<Rightarrow> nat \<Rightarrow> DownloadTask \<Rightarrow> DownloadTask" where
  "write_row task now r =
     r\<lparr>status := status task,
       bytes_downloaded := bytes_downloaded task,
       total_bytes := total_bytes task,
       sha256_hash := sha256_hash task,
       retry_count := retry_count task,
       error_message := error_message task,
       updated_at := Some now\<rparr>"

definition update_task :: "DownloadTask \<Rightarrow> nat \<Rightarrow> Ledger \<Rightarrow> Ledger" where
  "update_task task now L =
     L\<lparr>rows := map (\<lambda>r. if source_url r = source_url task then write_row task now r else r)
                    (rows L)\<rparr>"

section \<open>The environment of a download\<close>

subsection \<open>Hashing\<close>

text \<open>
  \<^verbatim>\<open>hashlib.sha256\<close> is a parameter \<open>sha256\<close> of the model, from the bytes fed to the
  hasher (the concatenation of all \<^verbatim>\<open>update\<close> arguments) to the 256-bit digest;
  \<^verbatim>\<open>hexdigest()\<close> prints the digest as 64 lower-case hexadecimal digits.
\<close>

type_synonym bytes = "8 word list"

definition hex_digit :: "nat \<Rightarrow> char" where
  "hex_digit n = ''0123456789abcdef'' ! (n mod 16)"

definition hexdigest :: "256 word \<Rightarrow> string" where
  "hexdigest d = map (\<lambda>i. hex_digit (unat (drop_bit (4 * i) d))) (rev [0..<64])"

subsection \<open>Printing exceptions\<close>

fun decimal :: "nat \<Rightarrow> string" where
  "decimal n =
     (if n < 10 then [''0123456789'' ! n]
      else decimal (n div 10) @ [''0123456789'' ! (n mod 10)])"

declare decimal.simps [simp del]

definition decimal_int :: "int \<Rightarrow> string" where
  "decimal_int i = (if i < 0 then ''-'' @ decimal (nat (- i)) else decimal (nat i))"

text \<open>\<^verbatim>\<open>str(e)\<close>.\<close>

fun str_exn :: "exn \<Rightarrow> string" where
  "str_exn (ValueError m) = m"
| "str_exn (ClientError m) = m"
| "str_exn (ClientResponseError st url) =
     decimal st @ '', message='' @ [CHR 39, CHR 39] @ '', url='' @ [CHR 39] @ url @ [CHR 39]"
| "str_exn TimeoutError = []"
| "str_exn (DownloadFailedError url reason retries) =
     ''Download failed for '' @ url @ '': '' @ reason"
| "str_exn (DownloadTimeoutError url seconds) =
     ''Download timed out for '' @ url @ '' after '' @ decimal_int seconds @ ''s''"
| "str_exn (FileNotFoundError p) =
     ''[Errno 2] No such file or directory: '' @ [CHR 39] @ p @ [CHR 39]"
| "str_exn (IntegrityError m) = m"
| "str_exn CancelledError = []"
| "str_exn (AttributeError m) = m"

subsection \<open>HTTP\<close>

text \<open>
  A request is the URL and the start of the \<^verbatim>\<open>Range: bytes=N-\<close> header, if one is sent.
  What one \<^verbatim>\<open>session.get\<close> does is either an exception before any response, or a
  response: its status, its \<^verbatim>\<open>Content-Length\<close> header if present, the chunks that
  \<^verbatim>\<open>iter_chunked(chunk_size)\<close> yields, and the exception that ends the stream early, if
  any. The network is a parameter \<open>net\<close>: the outcome of the \<open>n\<close>-th request of the
  session, given the request.
\<close>

record Request =
  req_url :: string
  range_start :: "int option"

datatype http_outcome =
    GetRaises exn
  | Response nat "int option" "bytes list" "exn option"

subsection \<open>Settings and the world\<close>

record Settings =
  downloads_dir :: Path
  max_concurrent :: nat
  chunk_size :: nat
  timeout :: int
  max_retries :: int

text \<open>
  The state outside the downloader object: the regular files by resolved path, the
  directories \<^verbatim>\<open>mkdir(parents=True, exist_ok=True)\<close> was called on, the ledger, the
  requests sent so far, the reading of the store's \<^verbatim>\<open>CURRENT_TIMESTAMP\<close> (held fixed
  during one call), the working directory, and whether the installed \<^verbatim>\<open>aiohttp\<close> has an
  attribute \<^verbatim>\<open>NamedTupleRow\<close>. Directories are not looked up: a destination is a regular
  file or absent. The downloader is the one built with the
  default \<^verbatim>\<open>progress_callback=None\<close>, so \<^verbatim>\<open>_emit_progress\<close> does nothing.
\<close>

record World =
  files :: "Path \<rightharpoonup> bytes"
  mkdirs :: "Path list"
  ledger :: Ledger
  requests :: "Request list"
  clock :: nat
  cwd :: "string list"
  named_tuple_row :: bool

definition session_get :: "(nat \<Rightarrow> Request \<Rightarrow> http_outcome) \<Rightarrow> Request \<Rightarrow> World \<Rightarrow> http_outcome \<times> World" where
  "session_get net req w = (net (length (requests w)) req, w\<lparr>requests := requests w @ [req]\<rparr>)"

text \<open>\<^verbatim>\<open>dest_path.unlink()\<close> raises when the file is missing.\<close>

definition unlink :: "Path \<Rightarrow> World \<Rightarrow> exn + World" where
  "unlink p w =
     (case files w p of
        None \<Rightarrow> Inl (FileNotFoundError (str_path p))
      | Some _ \<Rightarrow> Inr (w\<lparr>files := (files w)(p := None)\<rparr>))"

section \<open>The downloader of \<^verbatim>\<open>backend/core/downloader.py\<close>\<close>

subsection \<open>\<^verbatim>\<open>_perform_download\<close>\<close>

text \<open>
  The loop of the \<^verbatim>\<open>200\<close>/\<^verbatim>\<open>206\<close> branch, on the file opened once before it: each
  chunk is written at the end of the file and fed to the hasher, and the byte count
  grows by its length. The state is the file's content, the bytes hashed so far and
  \<^verbatim>\<open>downloaded\<close>.
\<close>

fun append_chunks :: "bytes list \<Rightarrow> bytes \<times> bytes \<times> int \<Rightarrow> bytes \<times> bytes \<times> int" where
  "append_chunks [] s = s"
| "append_chunks (chunk # rest) (content, hashed, downloaded) =
     append_chunks rest (content @ chunk, hashed @ chunk, downloaded + int (length chunk))"

text \<open>
  The loop of the \<^verbatim>\<open>416\<close> branch: \<^verbatim>\<open>dest_path.open("wb").write(chunk)\<close> opens the file
  anew for every chunk, which truncates it, and the file object is closed when it is
  dropped at the end of the statement. The file is absent until the first chunk.
\<close>

fun truncating_chunks :: "bytes list \<Rightarrow> bytes option \<times> bytes \<times> int \<Rightarrow> bytes option \<times> bytes \<times> int" where
  "truncating_chunks [] s = s"
| "truncating_chunks (chunk # rest) (content, hashed, downloaded) =
     truncating_chunks rest (Some chunk, hashed @ chunk, downloaded + int (length chunk))"

text \<open>
  The end of the \<^verbatim>\<open>try\<close> block, once the body has been read: the digest of the hasher,
  the look-up of a \<^verbatim>\<open>COMPLETED\<close> task with that digest, and the two ways on.
  Results are the exception raised, if any, the state of the task object and the world.
\<close>

definition record_digest :: "(bytes \<Rightarrow> 256 word) \<Rightarrow> bytes \<Rightarrow> Path \<Rightarrow> DownloadTask \<Rightarrow> World \<Rightarrow> exn option \<times> DownloadTask \<times> World" where
  "record_digest sha256 hashed dest_path task w =
     (let final_hash = hexdigest (sha256 hashed);
          completed = (None, task\<lparr>sha256_hash := Some final_hash, status := COMPLETED\<rparr>, w) in
      case get_task_by_hash (named_tuple_row w) (ledger w) final_hash of
        Inl e \<Rightarrow> (Some e, task, w)
      | Inr None \<Rightarrow> completed
      | Inr (Some existing_with_hash) \<Rightarrow>
          if source_url existing_with_hash \<noteq> source_url task then
            (let task' = task\<lparr>status := DUPLICATE\<rparr> in
             case unlink dest_path w of
               Inl e \<Rightarrow> (Some e, task', w)
             | Inr w' \<Rightarrow> (None, task', w'))
          else completed)"

text \<open>
  The body of the \<^verbatim>\<open>try\<close> block. \<open>range_header\<close> is the \<^verbatim>\<open>Range\<close> header put into
  \<^verbatim>\<open>headers\<close> before it.
\<close>

definition transfer :: "(bytes \<Rightarrow> 256 word) \<Rightarrow> (nat \<Rightarrow> Request \<Rightarrow> http_outcome) \<Rightarrow> DownloadTask \<Rightarrow> Path \<Rightarrow> int option \<Rightarrow> World \<Rightarrow> exn option \<times> DownloadTask \<times> World" where
  "transfer sha256 net task dest_path range_header w =
     (let downloaded = bytes_downloaded task;
          (out, w1) = session_get net \<lparr>req_url = source_url task, range_start = range_header\<rparr> w in
      case out of
        GetRaises e \<Rightarrow> (Some e, task, w1)
      | Response st content_length chunks err \<Rightarrow>
          if st = 416 then
            (case unlink dest_path w1 of
               Inl e \<Rightarrow> (Some e, task, w1)
             | Inr w2 \<Rightarrow>
                 let task2 = task\<lparr>bytes_downloaded := 0\<rparr>;
                     (out2, w3) = session_get net \<lparr>req_url = source_url task, range_start = None\<rparr> w2 in
                 (case out2 of
                    GetRaises e \<Rightarrow> (Some e, task2, w3)
                  | Response st2 content_length2 chunks2 err2 \<Rightarrow>
                      let total = (case content_length2 of None \<Rightarrow> 0 | Some n \<Rightarrow> n);
                          task3 = task2\<lparr>total_bytes := Some total\<rparr>;
                          (content, hashed, d) = truncating_chunks chunks2 (files w3 dest_path, [], 0);
                          task4 = task3\<lparr>bytes_downloaded := d\<rparr>;
                          w4 = w3\<lparr>files := (files w3)(dest_path := content)\<rparr> in
                      (case err2 of
                         Some e \<Rightarrow> (Some e, task4, w4)
                       | None \<Rightarrow> record_digest sha256 hashed dest_path task4 w4)))
          else if st = 200 \<or> st = 206 then
            (let total = (case content_length of None \<Rightarrow> 0 | Some n \<Rightarrow> n) + downloaded;
                 task2 = task\<lparr>total_bytes := Some total\<rparr>;
                 opened = (if downloaded > 0
                           then (case files w1 dest_path of None \<Rightarrow> [] | Some old \<Rightarrow> old)
                           else []);
                 (content, hashed, d) = append_chunks chunks (opened, [], downloaded);
                 task3 = task2\<lparr>bytes_downloaded := d\<rparr>;
                 w2 = w1\<lparr>files := (files w1)(dest_path \<mapsto> content)\<rparr> in
             case err of
               Some e \<Rightarrow> (Some e, task3, w2)
             | None \<Rightarrow> record_digest sha256 hashed dest_path task3 w2)
          else (Some (ClientResponseError st (source_url task)), task, w1))"

definition perform_download :: "(bytes \<Rightarrow> 256 word) \<Rightarrow> (nat \<Rightarrow> Request \<Rightarrow> http_outcome) \<Rightarrow> Settings \<Rightarrow> DownloadTask \<Rightarrow> Path \<Rightarrow> World \<Rightarrow> exn option \<times> DownloadTask \<times> World" where
  "perform_download sha256 net cfg task dest_path w =
     (let task1 = task\<lparr>status := DOWNLOADING\<rparr>;
          w1 = w\<lparr>ledger := update_task task1 (clock w) (ledger w)\<rparr>;
          existing_size = (case files w1 dest_path of None \<Rightarrow> 0 | Some old \<Rightarrow> int (length old));
          task2 = (if existing_size > 0 then task1\<lparr>bytes_downloaded := existing_size\<rparr> else task1);
          range_header = (if existing_size > 0 then Some existing_size else None) in
      case transfer sha256 net task2 dest_path range_header w1 of
        (Some e, task3, w2) \<Rightarrow>
          if is_timeout e then
            (Some (DownloadTimeoutError (source_url task3) (timeout cfg)),
             task3\<lparr>status := FAILED, error_message := Some ''Timeout''\<rparr>, w2)
          else if is_client_error e then
            (Some (DownloadFailedError (source_url task3) (str_exn e) (retry_count task3)),
             task3\<lparr>status := FAILED, error_message := Some (str_exn e)\<rparr>, w2)
          else (Some e, task3, w2)
      | (None, task3, w2) \<Rightarrow>
          (None, task3, w2\<lparr>ledger := update_task task3 (clock w2) (ledger w2)\<rparr>))"

subsection \<open>\<^verbatim>\<open>_download_with_retry\<close>\<close>

text \<open>The function under the decorator: one attempt and its \<^verbatim>\<open>except\<close> clause.\<close>

definition download_attempt :: "(bytes \<Rightarrow> 256 word) \<Rightarrow> (nat \<Rightarrow> Request \<Rightarrow> http_outcome) \<Rightarrow> Settings \<Rightarrow> Path \<Rightarrow> DownloadTask \<Rightarrow> World \<Rightarrow> exn option \<times> DownloadTask \<times> World" where
  "download_attempt sha256 net cfg dest_path task w =
     (case perform_download sha256 net cfg task dest_path w of
        (Some e, task1, w1) \<Rightarrow>
          if is_client_error e \<or> is_timeout e then
            (let task2 = task1\<lparr>retry_count := retry_count task1 + 1,
                                error_message := Some (str_exn e)\<rparr> in
             if retry_count task2 \<ge> max_retries cfg
             then (None, task2\<lparr>status := FAILED\<rparr>, w1)
             else (Some e, task2, w1))
          else (Some e, task1, w1)
      | (None, task1, w1) \<Rightarrow> (None, task1, w1))"

text \<open>
  The decorator \<^verbatim>\<open>@retry(retry=retry_if_exception_type((ClientError, TimeoutError)),
  stop=stop_after_attempt(3), wait=..., reraise=True)\<close>: the call is repeated, on the
  same task object, while it raises one of the two classes and attempts remain; the
  last exception is raised as it is. \<open>retrying n\<close> has \<open>n\<close> further attempts after
  the next one. The waits between attempts pass time only.
\<close>

fun retrying :: "nat \<Rightarrow> (DownloadTask \<Rightarrow> World \<Rightarrow> exn option \<times> DownloadTask \<times> World) \<Rightarrow> DownloadTask \<Rightarrow> World \<Rightarrow> exn option \<times> DownloadTask \<times> World" where
  "retrying 0 f task w = f task w"
| "retrying (Suc n) f task w =
     (case f task w of
        (Some e, task1, w1) \<Rightarrow>
          if is_client_error e \<or> is_timeout e then retrying n f task1 w1
          else (Some e, task1, w1)
      | (None, task1, w1) \<Rightarrow> (None, task1, w1))"

definition download_with_retry :: "(bytes \<Rightarrow> 256 word) \<Rightarrow> (nat \<Rightarrow> Request \<Rightarrow> http_outcome) \<Rightarrow> Settings \<Rightarrow> DownloadTask \<Rightarrow> Path \<Rightarrow> World \<Rightarrow> exn option \<times> DownloadTask \<times> World" where
  "download_with_retry sha256 net cfg task dest_path w =
     retrying 2 (download_attempt sha256 net cfg dest_path) task w"

subsection \<open>\<^verbatim>\<open>download\<close>\<close>

text \<open>
  The body under \<^verbatim>\<open>async with self._semaphore\<close>, for one call running alone. The
  result is the task returned or the exception raised, and the world after the call.
\<close>

definition download :: "(bytes \<Rightarrow> 256 word) \<Rightarrow> (nat \<Rightarrow> Request \<Rightarrow> http_outcome) \<Rightarrow> Settings \<Rightarrow> string \<Rightarrow> Path \<Rightarrow> World \<Rightarrow> (exn + DownloadTask) \<times> World" where
  "download sha256 net cfg url dest_path w =
     (case sanitize_path (cwd w) dest_path (downloads_dir cfg) of
        Inl e \<Rightarrow> (Inl e, w)
      | Inr dest \<Rightarrow>
          let w1 = w\<lparr>mkdirs := mkdirs w @ [parent dest]\<rparr>;
              run = (\<lambda>task w2.
                case download_with_retry sha256 net cfg task dest w2 of
                  (Some e, task1, w3) \<Rightarrow> (Inl e, w3)
                | (None, task1, w3) \<Rightarrow>
                    (Inr task1, w3\<lparr>ledger := update_task task1 (clock w3) (ledger w3)\<rparr>)) in
          (case get_task_by_url (named_tuple_row w1) (ledger w1) url of
             Inl e \<Rightarrow> (Inl e, w1)
           | Inr (Some existing_task) \<Rightarrow>
               if status existing_task = COMPLETED then (Inr existing_task, w1)
               else if status existing_task = DUPLICATE then (Inr existing_task, w1)
               else run existing_task w1
           | Inr None \<Rightarrow>
               (case create_task url (str_path dest) (clock w1) (ledger w1) of
                  Inl e \<Rightarrow> (Inl e, w1)
                | Inr (task, L) \<Rightarrow> run task (w1\<lparr>ledger := L\<rparr>))))"

section \<open>The downloader of \<^verbatim>\<open>backend/services/downloader.py\<close>\<close>

text \<open>
  This second \<^verbatim>\<open>AsyncDownloader\<close> works on the \<^verbatim>\<open>DownloadTask\<close> and
  \<^verbatim>\<open>DownloadStatus\<close> of \<^verbatim>\<open>backend/core/interfaces.py\<close>; their names carry the suffix
  \<open>_i\<close> here. It has no ledger and does not sanitize the path; a file is looked up at
  the path resolved against the working directory.
\<close>

datatype DownloadStatus_i = PENDING_i | DOWNLOADING_i | PAUSED_i | COMPLETED_i | FAILED_i

record DownloadTask_i =
  url_i :: string
  dest_path_i :: Path
  status_i :: DownloadStatus_i
  retries_i :: int
  error_message_i :: "string option"
  sha256_hash_i :: "string option"

text \<open>
  \<^verbatim>\<open>_compute_file_hash\<close>: the loop \<^verbatim>\<open>for chunk in iter(lambda: f.read(8192), b"")\<close>
  feeds the hasher block by block until a read returns nothing.
\<close>

function read_blocks :: "nat \<Rightarrow> bytes \<Rightarrow> bytes \<Rightarrow> bytes" where
  "read_blocks n remaining hashed =
     (let chunk = take n remaining in
      if chunk = [] then hashed
      else read_blocks n (drop n remaining) (hashed @ chunk))"
  by pat_completeness auto
termination
  by (relation "measure (\<lambda>(n, remaining, hashed). length remaining)") auto

declare read_blocks.simps [simp del]

definition compute_file_hash :: "(bytes \<Rightarrow> 256 word) \<Rightarrow> Path \<Rightarrow> World \<Rightarrow> exn + string" where
  "compute_file_hash sha256 path w =
     (case files w (resolve (cwd w) path) of
        None \<Rightarrow> Inl (FileNotFoundError (str_path path))
      | Some content \<Rightarrow> Inr (hexdigest (sha256 (read_blocks 8192 content []))))"

text \<open>
  The loop over the response body: it stops at the first chunk when the URL is in
  \<^verbatim>\<open>self._paused\<close> (\<^verbatim>\<open>pause(url)\<close> then adds the URL to the set it is already in, and
  \<^verbatim>\<open>_active_downloads\<close> is never filled). The result is the file's content and
  whether the loop was left by \<^verbatim>\<open>break\<close>.
\<close>

fun write_chunks_i :: "bool \<Rightarrow> bytes list \<Rightarrow> bytes \<Rightarrow> bytes \<times> bool" where
  "write_chunks_i is_paused [] content = (content, False)"
| "write_chunks_i is_paused (chunk # rest) content =
     (if is_paused then (content, True) else write_chunks_i is_paused rest (content @ chunk))"

text \<open>The two \<^verbatim>\<open>except\<close> clauses.\<close>

definition on_exception_i :: "exn \<Rightarrow> DownloadTask_i \<Rightarrow> DownloadTask_i" where
  "on_exception_i e task =
     (if e = CancelledError then task\<lparr>status_i := PAUSED_i\<rparr>
      else task\<lparr>status_i := FAILED_i, error_message_i := Some (str_exn e)\<rparr>)"

text \<open>
  The request and what follows it; \<open>headers\<close> is the \<^verbatim>\<open>Range\<close> entry of the
  dictionary \<^verbatim>\<open>headers\<close>, if it has one. \<^verbatim>\<open>raise_for_status()\<close> raises from status 400 on.
\<close>

definition fetch_i :: "(bytes \<Rightarrow> 256 word) \<Rightarrow> (nat \<Rightarrow> Request \<Rightarrow> http_outcome) \<Rightarrow> string set \<Rightarrow> int option \<Rightarrow> DownloadTask_i \<Rightarrow> World \<Rightarrow> DownloadTask_i \<times> World" where
  "fetch_i sha256 net paused headers task w =
     (let url = url_i task;
          key = resolve (cwd w) (dest_path_i task);
          (out, w1) = session_get net \<lparr>req_url = url, range_start = headers\<rparr> w in
      case out of
        GetRaises e \<Rightarrow> (on_exception_i e task, w1)
      | Response st content_length chunks err \<Rightarrow>
          if st \<ge> 400 then (on_exception_i (ClientResponseError st url) task, w1)
          else
            let opened = (if headers \<noteq> None
                          then (case files w1 key of None \<Rightarrow> [] | Some old \<Rightarrow> old)
                          else []);
                (content, broke) = write_chunks_i (url \<in> paused) chunks opened;
                w2 = w1\<lparr>files := (files w1)(key \<mapsto> content)\<rparr> in
            (case (if broke then None else err) of
               Some e \<Rightarrow> (on_exception_i e task, w2)
             | None \<Rightarrow>
                 (case compute_file_hash sha256 (dest_path_i task) w2 of
                    Inl e \<Rightarrow> (on_exception_i e task, w2)
                  | Inr h \<Rightarrow> (task\<lparr>sha256_hash_i := Some h, status_i := COMPLETED_i\<rparr>, w2))))"

definition download_i :: "(bytes \<Rightarrow> 256 word) \<Rightarrow> (nat \<Rightarrow> Request \<Rightarrow> http_outcome) \<Rightarrow> string set \<Rightarrow> string \<Rightarrow> Path \<Rightarrow> World \<Rightarrow> DownloadTask_i \<times> World" where
  "download_i sha256 net paused url dest_path w =
     (let w1 = w\<lparr>mkdirs := mkdirs w @ [resolve (cwd w) (parent dest_path)]\<rparr>;
          task = \<lparr>url_i = url, dest_path_i = dest_path, status_i = DOWNLOADING_i,
                  retries_i = 0, error_message_i = None, sha256_hash_i = None\<rparr> in
      case files w1 (resolve (cwd w1) dest_path) of
        None \<Rightarrow> fetch_i sha256 net paused None task w1
      | Some old \<Rightarrow>
          (case compute_file_hash sha256 dest_path w1 of
             Inl e \<Rightarrow> (on_exception_i e task, w1)
           | Inr existing_hash \<Rightarrow>
               if existing_hash \<noteq> [] then
                 (task\<lparr>sha256_hash_i := Some existing_hash, status_i := COMPLETED_i\<rparr>, w1)
               else fetch_i sha256 net paused (Some (int (length old))) task w1))"

section \<open>Example inputs\<close>

text \<open>
  Concrete settings, worlds and networks on which the model is run below. \<open>toy_sha256\<close>
  stands in for the digest function there; it is never unfolded.
\<close>

definition toy_sha256 :: "bytes \<Rightarrow> 256 word" where
  "toy_sha256 data = word_of_nat (length data)"

definition ex_settings :: Settings where
  "ex_settings =
     \<lparr>downloads_dir = \<lparr>is_absolute = True, parts = [''data'', ''downloads'']\<rparr>,
      max_concurrent = 5, chunk_size = 8192, timeout = 300, max_retries = 3\<rparr>"

definition ex_url :: string where
  "ex_url = ''https://example.org/a.bin''"

definition ex_mirror_url :: string where
  "ex_mirror_url = ''https://mirror.example.org/a.bin''"

definition ex_dest :: Path where
  "ex_dest = \<lparr>is_absolute = False, parts = [''reports'', ''a.bin'']\<rparr>"

definition ex_file :: Path where
  "ex_file = \<lparr>is_absolute = True, parts = [''data'', ''downloads'', ''reports'', ''a.bin'']\<rparr>"

definition ex_mirror_file :: Path where
  "ex_mirror_file = \<lparr>is_absolute = True, parts = [''data'', ''downloads'', ''mirror.bin'']\<rparr>"

definition ex_body :: bytes where
  "ex_body = [1, 2, 3, 4, 5]"

text \<open>
  A fresh installation of the program as shipped: no file, no task, no request yet,
  and an \<^verbatim>\<open>aiohttp\<close> without \<^verbatim>\<open>NamedTupleRow\<close>. \<open>with_row_factory\<close> is a world with a
  working row factory supplied under that name.
\<close>

definition ex_world :: World where
  "ex_world =
     \<lparr>files = Map.empty, mkdirs = [], ledger = \<lparr>rows = [], last_rowid = 0\<rparr>,
      requests = [], clock = 7, cwd = [''app''], named_tuple_row = False\<rparr>"

definition with_row_factory :: "World \<Rightarrow> World" where
  "with_row_factory w = w\<lparr>named_tuple_row := True\<rparr>"

text \<open>A task for \<open>ex_url\<close> in a given status, as a row of the ledger.\<close>

definition ex_row :: "DownloadStatus \<Rightarrow> int \<Rightarrow> string option \<Rightarrow> DownloadTask" where
  "ex_row st n digest =
     \<lparr>task_id = Some 1, source_url = ex_url, local_filepath = ''/data/downloads/reports/a.bin'',
      status = st, bytes_downloaded = n, total_bytes = None, sha256_hash = digest,
      retry_count = 0, error_message = None, created_at = Some 3, updated_at = Some 4\<rparr>"

text \<open>An interrupted transfer: three bytes of the file are on disk.\<close>

definition ex_partial_world :: World where
  "ex_partial_world =
     ex_world\<lparr>files := [ex_file \<mapsto> [1, 2, 3]],
              ledger := \<lparr>rows = [ex_row DOWNLOADING 3 None], last_rowid = 1\<rparr>\<rparr>"

text \<open>The task for \<open>ex_url\<close> has been created and nothing is on disk.\<close>

definition ex_pending_world :: World where
  "ex_pending_world =
     ex_world\<lparr>ledger := \<lparr>rows = [ex_row PENDING 0 None], last_rowid = 1\<rparr>\<rparr>"

text \<open>The same content was fetched before from the mirror.\<close>

definition ex_mirror_row :: DownloadTask where
  "ex_mirror_row =
     \<lparr>task_id = Some 1, source_url = ex_mirror_url,
      local_filepath = ''/data/downloads/mirror.bin'', status = COMPLETED,
      bytes_downloaded = 5, total_bytes = Some 5,
      sha256_hash = Some (hexdigest (toy_sha256 ex_body)),
      retry_count = 0, error_message = None, created_at = Some 3, updated_at = Some 4\<rparr>"

definition ex_mirrored_world :: World where
  "ex_mirrored_world =
     ex_world\<lparr>files := [ex_mirror_file \<mapsto> ex_body],
              ledger := \<lparr>rows = [ex_mirror_row], last_rowid = 1\<rparr>\<rparr>"

text \<open>The same, with a task for \<open>ex_url\<close> created after the mirror's.\<close>

definition ex_second_row :: DownloadTask where
  "ex_second_row =
     \<lparr>task_id = Some 2, source_url = ex_url,
      local_filepath = ''/data/downloads/reports/a.bin'', status = PENDING,
      bytes_downloaded = 0, total_bytes = None, sha256_hash = None,
      retry_count = 0, error_message = None, created_at = Some 5, updated_at = Some 5\<rparr>"

definition ex_mirrored_pending_world :: World where
  "ex_mirrored_pending_world =
     ex_mirrored_world\<lparr>ledger := \<lparr>rows = [ex_mirror_row, ex_second_row], last_rowid = 2\<rparr>\<rparr>"

text \<open>The transfer of \<open>ex_url\<close> has completed.\<close>

definition ex_done_world :: World where
  "ex_done_world =
     ex_world\<lparr>files := [ex_file \<mapsto> ex_body],
              ledger := \<lparr>rows = [ex_row COMPLETED 5 (Some (hexdigest (toy_sha256 ex_body)))],
                         last_rowid = 1\<rparr>\<rparr>"

text \<open>
  Networks: every connection is refused; every request times out; a server that
  ignores \<^verbatim>\<open>Range\<close> and always sends the whole body with status 200; a server that
  honours \<^verbatim>\<open>Range\<close> for the body \<open>ex_body\<close>.
\<close>

definition net_refused :: "nat \<Rightarrow> Request \<Rightarrow> http_outcome" where
  "net_refused n req = GetRaises (ClientError ''Connection refused'')"

definition net_timeout :: "nat \<Rightarrow> Request \<Rightarrow> http_outcome" where
  "net_timeout n req = GetRaises TimeoutError"

definition net_whole :: "nat \<Rightarrow> Request \<Rightarrow> http_outcome" where
  "net_whole n req = Response 200 (Some 5) [ex_body] None"

definition net_ranges :: "nat \<Rightarrow> Request \<Rightarrow> http_outcome" where
  "net_ranges n req =
     (case range_start req of
        None \<Rightarrow> Response 200 (Some 5) [ex_body] None
      | Some k \<Rightarrow>
          if 0 \<le> k \<and> k < 5 then Response 206 (Some (5 - k)) [drop (nat k) ex_body] None
          else Response 416 None [] None)"

text \<open>
  A server that answers the first request with 416 and the next with the body in two
  chunks.
\<close>

definition net_restart :: "nat \<Rightarrow> Request \<Rightarrow> http_outcome" where
  "net_restart n req =
     (if n = 0 then Response 416 None [] None
      else Response 200 (Some 5) [[1, 2, 3], [4, 5]] None)"

text \<open>A path with parent-directory segments, and a file below the working directory.\<close>

definition ex_traversal :: Path where
  "ex_traversal = \<lparr>is_absolute = False, parts = [''..'', ''..'', ''etc'', ''passwd'']\<rparr>"

definition ex_local_world :: World where
  "ex_local_world =
     ex_world\<lparr>files := [\<lparr>is_absolute = True, parts = [''app'', ''reports'', ''a.bin'']\<rparr> \<mapsto> [1, 2, 3]]\<rparr>"

text \<open>The default of \<^verbatim>\<open>StorageConfig.downloads_dir\<close>, \<^verbatim>\<open>Path("./data/downloads")\<close>.\<close>

definition ex_relative_base :: Path where
  "ex_relative_base = \<lparr>is_absolute = False, parts = [''data'', ''downloads'']\<rparr>"

section \<open>Unfolding the model\<close>

lemmas path_defs = sanitize_path_def str_path_def truediv_def resolve_def relative_to_def parent_def sublist_Cons_right
lemmas ledger_defs = get_task_by_url_def get_task_by_hash_def row_factory_error_def create_task_def update_task_def write_row_def
lemmas run_defs = download_def download_with_retry_def numeral_2_eq_2 download_attempt_def perform_download_def
  transfer_def session_get_def record_digest_def unlink_def Let_def
lemmas ex_defs = ex_settings_def ex_url_def ex_mirror_url_def ex_dest_def ex_file_def ex_mirror_file_def ex_world_def
  with_row_factory_def ex_row_def ex_pending_world_def ex_partial_world_def ex_mirror_row_def ex_mirrored_world_def
  ex_second_row_def ex_mirrored_pending_world_def ex_done_world_def
  net_refused_def net_timeout_def net_whole_def net_ranges_def

lemma row_factory_error_not_transient [simp]:
  "\<not> is_timeout row_factory_error" "\<not> is_client_error row_factory_error"
  by (simp_all add: row_factory_error_def)

section \<open>The ledger\<close>

text \<open>
  Claim C9. \<^verbatim>\<open>update_task\<close> leaves the number of rows and the row-id sequence as they
  are. In every row the columns \<^verbatim>\<open>id\<close>, \<^verbatim>\<open>source_url\<close>, \<^verbatim>\<open>local_filepath\<close> and
  \<^verbatim>\<open>created_at\<close> keep their values; a row for another URL is unchanged altogether; a
  row for the task's URL takes the task's \<^verbatim>\<open>status\<close>, \<^verbatim>\<open>bytes_downloaded\<close>,
  \<^verbatim>\<open>total_bytes\<close>, \<^verbatim>\<open>sha256_hash\<close>, \<^verbatim>\<open>retry_count\<close> and \<^verbatim>\<open>error_message\<close> and the
  current time as \<^verbatim>\<open>updated_at\<close>, and nothing else.
\<close>

theorem update_task_frame:
  "length (rows (update_task task now L)) = length (rows L) \<and>
   last_rowid (update_task task now L) = last_rowid L \<and>
   (\<forall>i < length (rows L).
      task_id (rows (update_task task now L) ! i) = task_id (rows L ! i) \<and>
      source_url (rows (update_task task now L) ! i) = source_url (rows L ! i) \<and>
      local_filepath (rows (update_task task now L) ! i) = local_filepath (rows L ! i) \<and>
      created_at (rows (update_task task now L) ! i) = created_at (rows L ! i) \<and>
      (source_url (rows L ! i) \<noteq> source_url task \<longrightarrow>
         rows (update_task task now L) ! i = rows L ! i) \<and>
      (source_url (rows L ! i) = source_url task \<longrightarrow>
         rows (update_task task now L) ! i =
           (rows L ! i)\<lparr>status := status task,
                         bytes_downloaded := bytes_downloaded task,
                         total_bytes := total_bytes task,
                         sha256_hash := sha256_hash task,
                         retry_count := retry_count task,
                         error_message := error_message task,
                         updated_at := Some now\<rparr>))"
  by (simp add: update_task_def write_row_def)

theorem update_task_frame_witness:
  "rows (update_task (ex_row FAILED 2 None) 9 \<lparr>rows = [ex_mirror_row, ex_row DOWNLOADING 0 None], last_rowid = 2\<rparr>) ! 0 = ex_mirror_row \<and>
   rows (update_task (ex_row FAILED 2 None) 9 \<lparr>rows = [ex_mirror_row, ex_row DOWNLOADING 0 None], last_rowid = 2\<rparr>) ! 1 =
      (ex_row FAILED 2 None)\<lparr>updated_at := Some 9\<rparr>"
  using update_task_frame[of "ex_row FAILED 2 None" 9 "\<lparr>rows = [ex_mirror_row, ex_row DOWNLOADING 0 None], last_rowid = 2\<rparr>"]
  by (simp add: ex_row_def ex_mirror_row_def ex_url_def ex_mirror_url_def All_less_Suc2 numeral_2_eq_2)


section \<open>The path sanitizer\<close>

lemma part_sublist_join_parts: "p \<in> set ps \<Longrightarrow> sublist p (join_parts ps)"
proof (induction ps rule: join_parts.induct)
  case 1
  then show ?case by simp
next
  case (2 q)
  then show ?case by simp
next
  case (3 q r rs)
  show ?case
  proof (cases "p = q")
    case True
    then show ?thesis by simp
  next
    case False
    with 3 have "sublist p (join_parts (r # rs))" by simp
    moreover have "sublist (join_parts (r # rs)) ((q @ ''/'') @ join_parts (r # rs))"
      by (rule sublist_append_leftI)
    ultimately show ?thesis by (auto intro: sublist_order.order.trans)
  qed
qed

lemma part_sublist_str_path:
  assumes "p \<in> set (parts d)"
  shows "sublist p (str_path d)"
proof -
  have j: "sublist p (join_parts (parts d))"
    using assms by (rule part_sublist_join_parts)
  have "sublist (join_parts (parts d)) (''/'' @ join_parts (parts d))"
    by (rule sublist_append_leftI)
  with j have "sublist p (''/'' @ join_parts (parts d))"
    by (rule sublist_order.order.trans)
  with j assms show ?thesis by (auto simp: str_path_def)
qed

lemma normalise_append: "normalise acc (xs @ ys) = normalise (normalise acc xs) ys"
  by (induction xs arbitrary: acc) simp_all

lemma normalise_no_parent: "''..'' \<notin> set ps \<Longrightarrow> normalise acc ps = acc @ ps"
  by (induction ps arbitrary: acc) auto

text \<open>
  A relative destination without \<^verbatim>\<open>..\<close> components resolves, below any base, to the
  components of the resolved base followed by its own.
\<close>

lemma resolve_truediv:
  assumes rel: "\<not> is_absolute d"
      and dots: "''..'' \<notin> set (parts d)"
  shows "resolve wd (truediv base d) = \<lparr>is_absolute = True, parts = parts (resolve wd base) @ parts d\<rparr>"
proof -
  have "normalise [] (xs @ parts d) = normalise [] xs @ parts d" for xs
    using normalise_append[of "[]" xs "parts d"] normalise_no_parent[OF dots, of "normalise [] xs"]
    by simp
  from this[of "parts base"] this[of "wd @ parts base"] rel show ?thesis
    by (simp add: resolve_def truediv_def)
qed

text \<open>
  With a relative allowed base, such as the default \<^verbatim>\<open>Path("./data/downloads")\<close> of
  \<^verbatim>\<open>StorageConfig.downloads_dir\<close>, the resolved destination is compared with the base
  as it was given, and every destination is rejected, also one that resolves to a
  path below the base.
\<close>

lemma sanitize_path_relative_base:
  assumes "\<not> is_absolute base"
  shows "\<exists>m. sanitize_path wd d base = Inl (ValueError m)"
  using assms by (simp add: sanitize_path_def Let_def relative_to_def resolve_def)

lemma sanitize_path_relative_base_example:
  "sanitize_path [''app''] \<lparr>is_absolute = False, parts = [''a.bin'']\<rparr> ex_relative_base =
     Inl (ValueError ''Path a.bin escapes allowed directory data/downloads'') \<and>
   resolve [''app''] (truediv ex_relative_base \<lparr>is_absolute = False, parts = [''a.bin'']\<rparr>) =
     \<lparr>is_absolute = True, parts = [''app'', ''data'', ''downloads'', ''a.bin'']\<rparr> \<and>
   resolve [''app''] ex_relative_base =
     \<lparr>is_absolute = True, parts = [''app'', ''data'', ''downloads'']\<rparr>"
  by (simp add: path_defs ex_relative_base_def)

text \<open>
  Claim C6, as amended. A destination that is absolute, or has a \<^verbatim>\<open>..\<close> component, or
  whose printed form contains the two characters \<^verbatim>\<open>..\<close> anywhere, or whose resolved
  path is not the resolved allowed base or below it, makes \<^verbatim>\<open>sanitize_path\<close> raise
  \<^verbatim>\<open>ValueError\<close>, and \<^verbatim>\<open>download\<close> raise the same error with the world (files,
  directories, ledger, requests) as it was. When the allowed base is absolute and free
  of \<^verbatim>\<open>..\<close> components, so that resolving it gives the base itself, every other
  destination is returned resolved, and the result is the allowed base or a path
  below it: the components of the base followed by those of the destination.
\<close>

theorem sanitize_path_contract:
  "(is_absolute d \<or> ''..'' \<in> set (parts d) \<or> sublist ''..'' (str_path d) \<or>
      \<not> prefix (parts (resolve (cwd w) (downloads_dir cfg)))
                (parts (resolve (cwd w) (truediv (downloads_dir cfg) d)))
    \<longrightarrow> (\<exists>m. sanitize_path (cwd w) d (downloads_dir cfg) = Inl (ValueError m) \<and>
             download sha256 net cfg url d w = (Inl (ValueError m), w)))
   \<and> (resolve (cwd w) (downloads_dir cfg) = downloads_dir cfg \<and>
      \<not> is_absolute d \<and> \<not> sublist ''..'' (str_path d)
    \<longrightarrow> sanitize_path (cwd w) d (downloads_dir cfg) = Inr (resolve (cwd w) (truediv (downloads_dir cfg) d)) \<and>
        resolve (cwd w) (truediv (downloads_dir cfg) d) =
          \<lparr>is_absolute = True, parts = parts (downloads_dir cfg) @ parts d\<rparr> \<and>
        prefix (parts (downloads_dir cfg)) (parts (resolve (cwd w) (truediv (downloads_dir cfg) d))))"
proof (intro conjI impI)
  assume bad: "is_absolute d \<or> ''..'' \<in> set (parts d) \<or> sublist ''..'' (str_path d) \<or>
      \<not> prefix (parts (resolve (cwd w) (downloads_dir cfg)))
                (parts (resolve (cwd w) (truediv (downloads_dir cfg) d)))"
  have "is_absolute d \<or> sublist ''..'' (str_path d)"
  proof (rule ccontr)
    assume "\<not> (is_absolute d \<or> sublist ''..'' (str_path d))"
    then have rel: "\<not> is_absolute d" and dots: "\<not> sublist ''..'' (str_path d)" by simp_all
    from dots have parts: "''..'' \<notin> set (parts d)"
      using part_sublist_str_path[of "''..''" d] by blast
    have "prefix (parts (resolve (cwd w) (downloads_dir cfg)))
                 (parts (resolve (cwd w) (truediv (downloads_dir cfg) d)))"
      by (simp add: resolve_truediv[OF rel parts])
    with bad rel dots parts show False by simp
  qed
  then have "sanitize_path (cwd w) d (downloads_dir cfg) =
               Inl (ValueError (''Path traversal attempt detected: '' @ str_path d))"
    by (auto simp: sanitize_path_def Let_def)
  then obtain m where m: "sanitize_path (cwd w) d (downloads_dir cfg) = Inl (ValueError m)" ..
  then have "download sha256 net cfg url d w = (Inl (ValueError m), w)"
    by (simp add: download_def)
  with m show "\<exists>m. sanitize_path (cwd w) d (downloads_dir cfg) = Inl (ValueError m) \<and>
             download sha256 net cfg url d w = (Inl (ValueError m), w)" by blast
next
  assume ok: "resolve (cwd w) (downloads_dir cfg) = downloads_dir cfg \<and>
      \<not> is_absolute d \<and> \<not> sublist ''..'' (str_path d)"
  then have base: "resolve (cwd w) (downloads_dir cfg) = downloads_dir cfg"
    and rel: "\<not> is_absolute d" and dots: "\<not> sublist ''..'' (str_path d)" by simp_all
  from dots have parts: "''..'' \<notin> set (parts d)"
    using part_sublist_str_path[of "''..''" d] by blast
  show r: "resolve (cwd w) (truediv (downloads_dir cfg) d) =
          \<lparr>is_absolute = True, parts = parts (downloads_dir cfg) @ parts d\<rparr>"
    using resolve_truediv[OF rel parts, of "cwd w" "downloads_dir cfg"] base by simp
  then show p: "prefix (parts (downloads_dir cfg)) (parts (resolve (cwd w) (truediv (downloads_dir cfg) d)))"
    by simp
  from base have "is_absolute (resolve (cwd w) (downloads_dir cfg)) = is_absolute (downloads_dir cfg)"
    by simp
  then have "is_absolute (downloads_dir cfg)"
    by (simp add: resolve_def)
  with p have "relative_to (resolve (cwd w) (truediv (downloads_dir cfg) d)) (downloads_dir cfg) \<noteq> None"
    by (simp add: relative_to_def resolve_def)
  with rel dots
  show "sanitize_path (cwd w) d (downloads_dir cfg) = Inr (resolve (cwd w) (truediv (downloads_dir cfg) d))"
    by (auto simp: sanitize_path_def Let_def)
qed

theorem sanitize_path_contract_witness:
  "resolve (cwd ex_world) (downloads_dir ex_settings) = downloads_dir ex_settings \<and>
   sanitize_path (cwd ex_world) ex_traversal (downloads_dir ex_settings) =
     Inl (ValueError ''Path traversal attempt detected: ../../etc/passwd'') \<and>
   download toy_sha256 net_whole ex_settings ex_url ex_traversal ex_world =
     (Inl (ValueError ''Path traversal attempt detected: ../../etc/passwd''), ex_world) \<and>
   sanitize_path (cwd ex_world) ex_dest (downloads_dir ex_settings) = Inr ex_file"
proof -
  have base: "resolve (cwd ex_world) (downloads_dir ex_settings) = downloads_dir ex_settings"
    by (simp add: path_defs ex_defs)
  have bad: "''..'' \<in> set (parts ex_traversal)" by (simp add: ex_traversal_def)
  have ok: "\<not> is_absolute ex_dest \<and> \<not> sublist ''..'' (str_path ex_dest)"
    by (simp add: path_defs ex_defs)
  from sanitize_path_contract[of ex_traversal ex_world ex_settings toy_sha256 net_whole ex_url] bad
  obtain m where m: "sanitize_path (cwd ex_world) ex_traversal (downloads_dir ex_settings) = Inl (ValueError m)"
     "download toy_sha256 net_whole ex_settings ex_url ex_traversal ex_world = (Inl (ValueError m), ex_world)"
    by blast
  have "sanitize_path (cwd ex_world) ex_traversal (downloads_dir ex_settings) =
     Inl (ValueError ''Path traversal attempt detected: ../../etc/passwd'')"
    by (simp add: path_defs ex_defs ex_traversal_def)
  with m have 1: "m = ''Path traversal attempt detected: ../../etc/passwd''" by simp
  have 2: "\<lparr>is_absolute = True, parts = parts (downloads_dir ex_settings) @ parts ex_dest\<rparr> = ex_file"
    by (simp add: ex_defs)
  from sanitize_path_contract[of ex_dest ex_world ex_settings toy_sha256 net_whole ex_url] base ok
  have "sanitize_path (cwd ex_world) ex_dest (downloads_dir ex_settings) = Inr ex_file"
    by (simp add: 2)
  with m 1 base show ?thesis by simp
qed

theorem sanitize_path_counterexample:
  "sanitize_path [''app''] \<lparr>is_absolute = False, parts = []\<rparr> (downloads_dir ex_settings) =
     Inr (downloads_dir ex_settings) \<and>
   \<not> is_absolute \<lparr>is_absolute = False, parts = [''notes..txt'']\<rparr> \<and>
   ''..'' \<notin> set (parts \<lparr>is_absolute = False, parts = [''notes..txt'']\<rparr>) \<and>
   resolve [''app''] (truediv (downloads_dir ex_settings) \<lparr>is_absolute = False, parts = [''notes..txt'']\<rparr>) =
     \<lparr>is_absolute = True, parts = [''data'', ''downloads'', ''notes..txt'']\<rparr> \<and>
   sanitize_path [''app''] \<lparr>is_absolute = False, parts = [''notes..txt'']\<rparr> (downloads_dir ex_settings) =
     Inl (ValueError ''Path traversal attempt detected: notes..txt'')"
  by (simp add: path_defs ex_defs)

section \<open>Retrying\<close>

text \<open>
  \<^verbatim>\<open>_perform_download\<close> turns every \<^verbatim>\<open>ClientError\<close> and \<^verbatim>\<open>TimeoutError\<close> of its
  \<^verbatim>\<open>try\<close> block into a \<^verbatim>\<open>DownloadFailedError\<close> or \<^verbatim>\<open>DownloadTimeoutError\<close>, so the
  \<^verbatim>\<open>except\<close> clause of \<^verbatim>\<open>_download_with_retry\<close> and the decorator never see one of the
  classes they wait for: a call makes one attempt.
\<close>

lemma perform_download_not_transient:
  assumes "perform_download sha256 net cfg task dest_path w = (Some e, task', w')"
  shows "\<not> is_client_error e \<and> \<not> is_timeout e"
  using assms
  by (auto simp: perform_download_def Let_def split: prod.splits option.splits if_splits)

lemma download_attempt_eq:
  "download_attempt sha256 net cfg dest_path task w = perform_download sha256 net cfg task dest_path w"
proof (cases "perform_download sha256 net cfg task dest_path w")
  case (fields r task' w')
  show ?thesis
  proof (cases r)
    case None
    with fields show ?thesis by (simp add: download_attempt_def)
  next
    case (Some e)
    with fields perform_download_not_transient[of sha256 net cfg task dest_path w e task' w']
    show ?thesis by (simp add: download_attempt_def)
  qed
qed

lemma retrying_single:
  assumes "\<And>task w e task' w'. f task w = (Some e, task', w') \<Longrightarrow> \<not> is_client_error e \<and> \<not> is_timeout e"
  shows "retrying n f task w = f task w"
proof (cases n)
  case 0
  then show ?thesis by simp
next
  case (Suc m)
  obtain r task' w' where fr: "f task w = (r, task', w')" by (cases "f task w")
  show ?thesis
  proof (cases r)
    case None
    with fr Suc show ?thesis by simp
  next
    case (Some e)
    with fr assms[of task w e task' w'] Suc show ?thesis by simp
  qed
qed

lemma download_with_retry_eq:
  "download_with_retry sha256 net cfg task dest_path w = perform_download sha256 net cfg task dest_path w"
  unfolding download_with_retry_def
  by (subst retrying_single) (auto simp: download_attempt_eq dest: perform_download_not_transient)

lemma record_digest_retry_count:
  "retry_count (fst (snd (record_digest sha256 hashed dest_path task w))) = retry_count task"
  by (simp add: record_digest_def Let_def split: option.splits sum.splits)

lemma transfer_retry_count:
  "retry_count (fst (snd (transfer sha256 net task dest_path rng w))) = retry_count task"
  by (simp add: transfer_def session_get_def Let_def record_digest_retry_count
           split: http_outcome.splits option.splits sum.splits prod.splits)

lemma perform_download_retry_count:
  "retry_count (fst (snd (perform_download sha256 net cfg task dest_path w))) = retry_count task"
proof -
  define task1 where "task1 = task\<lparr>status := DOWNLOADING\<rparr>"
  define w1 where "w1 = w\<lparr>ledger := update_task task1 (clock w) (ledger w)\<rparr>"
  define existing_size where
    "existing_size = (case files w1 dest_path of None \<Rightarrow> 0 | Some old \<Rightarrow> int (length old))"
  define task2 where
    "task2 = (if existing_size > 0 then task1\<lparr>bytes_downloaded := existing_size\<rparr> else task1)"
  define rng where "rng = (if existing_size > 0 then Some existing_size else None)"
  obtain r task3 w2 where t: "transfer sha256 net task2 dest_path rng w1 = (r, task3, w2)"
    by (cases "transfer sha256 net task2 dest_path rng w1")
  have "retry_count task3 = retry_count task2"
    using transfer_retry_count[of sha256 net task2 dest_path rng w1] t by simp
  then have r3: "retry_count task3 = retry_count task"
    by (simp add: task2_def task1_def)
  have "perform_download sha256 net cfg task dest_path w =
          (case (r, task3, w2) of
             (Some e, task3, w2) \<Rightarrow>
               if is_timeout e then
                 (Some (DownloadTimeoutError (source_url task3) (timeout cfg)),
                  task3\<lparr>status := FAILED, error_message := Some ''Timeout''\<rparr>, w2)
               else if is_client_error e then
                 (Some (DownloadFailedError (source_url task3) (str_exn e) (retry_count task3)),
                  task3\<lparr>status := FAILED, error_message := Some (str_exn e)\<rparr>, w2)
               else (Some e, task3, w2)
           | (None, task3, w2) \<Rightarrow>
               (None, task3, w2\<lparr>ledger := update_task task3 (clock w2) (ledger w2)\<rparr>))"
    unfolding perform_download_def Let_def
    using t unfolding rng_def task2_def existing_size_def w1_def task1_def
    by simp
  with r3 show ?thesis
    by (cases r) auto
qed

lemma download_with_retry_retry_count:
  "retry_count (fst (snd (download_with_retry sha256 net cfg task dest_path w))) = retry_count task"
  by (simp add: download_with_retry_eq perform_download_retry_count)

section \<open>The look-ups as shipped\<close>

text \<open>
  Without the attribute \<^verbatim>\<open>NamedTupleRow\<close>, a call of \<^verbatim>\<open>download\<close> never returns a task:
  it raises the \<^verbatim>\<open>ValueError\<close> of the sanitizer or the \<^verbatim>\<open>AttributeError\<close> of the look-up
  by URL, and has sent no request and changed neither the ledger nor a file.
\<close>

lemma download_shipped:
  assumes "\<not> named_tuple_row w"
  shows "\<exists>e. fst (download sha256 net cfg url dest_path w) = Inl e"
    and "requests (snd (download sha256 net cfg url dest_path w)) = requests w"
    and "ledger (snd (download sha256 net cfg url dest_path w)) = ledger w"
    and "files (snd (download sha256 net cfg url dest_path w)) = files w"
  using assms
  by (auto simp: download_def Let_def get_task_by_url_def split: sum.splits)

text \<open>
  Nor does \<^verbatim>\<open>_perform_download\<close> ever return or assign a digest then: when the body
  has been read, the look-up by digest raises \<^verbatim>\<open>AttributeError\<close> with the task as it
  stands, and no \<^verbatim>\<open>except\<close> clause catches it.
\<close>

lemma record_digest_shipped:
  "\<not> named_tuple_row w \<Longrightarrow>
   record_digest sha256 hashed dest_path task w = (Some row_factory_error, task, w)"
  by (simp add: record_digest_def get_task_by_hash_def Let_def)

lemma transfer_shipped_digest:
  "\<not> named_tuple_row w \<Longrightarrow>
   sha256_hash (fst (snd (transfer sha256 net task dest_path rng w))) = sha256_hash task"
  by (simp add: transfer_def session_get_def unlink_def Let_def record_digest_shipped
           split: http_outcome.splits option.splits sum.splits prod.splits)

lemma transfer_shipped_raises:
  "\<not> named_tuple_row w \<Longrightarrow> fst (transfer sha256 net task dest_path rng w) \<noteq> None"
  by (simp add: transfer_def session_get_def unlink_def Let_def record_digest_shipped
           split: http_outcome.splits option.splits sum.splits prod.splits)

lemma perform_download_shipped:
  assumes "\<not> named_tuple_row w"
  shows "fst (perform_download sha256 net cfg task dest_path w) \<noteq> None"
    and "sha256_hash (fst (snd (perform_download sha256 net cfg task dest_path w))) = sha256_hash task"
proof -
  define task1 where "task1 = task\<lparr>status := DOWNLOADING\<rparr>"
  define w1 where "w1 = w\<lparr>ledger := update_task task1 (clock w) (ledger w)\<rparr>"
  define existing_size where
    "existing_size = (case files w1 dest_path of None \<Rightarrow> 0 | Some old \<Rightarrow> int (length old))"
  define task2 where
    "task2 = (if existing_size > 0 then task1\<lparr>bytes_downloaded := existing_size\<rparr> else task1)"
  define rng where "rng = (if existing_size > 0 then Some existing_size else None)"
  obtain r task3 w2 where t: "transfer sha256 net task2 dest_path rng w1 = (r, task3, w2)"
    by (cases "transfer sha256 net task2 dest_path rng w1")
  have shipped: "\<not> named_tuple_row w1"
    using assms by (simp add: w1_def)
  have "sha256_hash task3 = sha256_hash task2"
    using transfer_shipped_digest[OF shipped, of sha256 net task2 dest_path rng] t by simp
  then have r3: "sha256_hash task3 = sha256_hash task"
    by (simp add: task2_def task1_def)
  have raised: "r \<noteq> None"
    using transfer_shipped_raises[OF shipped, of sha256 net task2 dest_path rng] t by simp
  have p: "perform_download sha256 net cfg task dest_path w =
          (case (r, task3, w2) of
             (Some e, task3, w2) \<Rightarrow>
               if is_timeout e then
                 (Some (DownloadTimeoutError (source_url task3) (timeout cfg)),
                  task3\<lparr>status := FAILED, error_message := Some ''Timeout''\<rparr>, w2)
               else if is_client_error e then
                 (Some (DownloadFailedError (source_url task3) (str_exn e) (retry_count task3)),
                  task3\<lparr>status := FAILED, error_message := Some (str_exn e)\<rparr>, w2)
               else (Some e, task3, w2)
           | (None, task3, w2) \<Rightarrow>
               (None, task3, w2\<lparr>ledger := update_task task3 (clock w2) (ledger w2)\<rparr>))"
    unfolding perform_download_def Let_def
    using t unfolding rng_def task2_def existing_size_def w1_def task1_def
    by simp
  from p raised show "fst (perform_download sha256 net cfg task dest_path w) \<noteq> None"
    by (cases r) auto
  from p r3 show "sha256_hash (fst (snd (perform_download sha256 net cfg task dest_path w))) = sha256_hash task"
    by (cases r) auto
qed

text \<open>
  Claim C5. Once the sanitizer has accepted the destination, \<^verbatim>\<open>download\<close> creates the
  parent directory and looks the URL up in the ledger. In the program as shipped the
  look-up raises \<^verbatim>\<open>AttributeError\<close>, and that is what the call raises, for every URL
  and every ledger, also when the ledger holds a \<^verbatim>\<open>COMPLETED\<close> or \<^verbatim>\<open>DUPLICATE\<close> task
  for the URL; nothing but the directory has changed. With a row factory under the
  name \<^verbatim>\<open>aiohttp.NamedTupleRow\<close>, the call returns a stored \<^verbatim>\<open>COMPLETED\<close> or
  \<^verbatim>\<open>DUPLICATE\<close> task as it is stored; it sends no request and changes neither the
  ledger nor a file.
\<close>

theorem download_stored_task:
  "sanitize_path (cwd w) dest_path (downloads_dir cfg) = Inr dest \<longrightarrow>
     (\<not> named_tuple_row w \<longrightarrow>
        download sha256 net cfg url dest_path w =
          (Inl row_factory_error, w\<lparr>mkdirs := mkdirs w @ [parent dest]\<rparr>)) \<and>
     (named_tuple_row w \<and> find (\<lambda>r. source_url r = url) (rows (ledger w)) = Some t \<and>
      (status t = COMPLETED \<or> status t = DUPLICATE) \<longrightarrow>
        download sha256 net cfg url dest_path w =
          (Inr t, w\<lparr>mkdirs := mkdirs w @ [parent dest]\<rparr>))"
  by (auto simp: download_def Let_def get_task_by_url_def)

theorem download_stored_task_witness:
  "sanitize_path (cwd ex_done_world) ex_dest (downloads_dir ex_settings) = Inr ex_file \<and>
   download toy_sha256 net_whole ex_settings ex_url ex_dest ex_done_world =
     (Inl row_factory_error, ex_done_world\<lparr>mkdirs := [parent ex_file]\<rparr>) \<and>
   download toy_sha256 net_whole ex_settings ex_url ex_dest (with_row_factory ex_done_world) =
     (Inr (ex_row COMPLETED 5 (Some (hexdigest (toy_sha256 ex_body)))),
      (with_row_factory ex_done_world)\<lparr>mkdirs := [parent ex_file]\<rparr>)"
proof -
  have san: "sanitize_path (cwd ex_done_world) ex_dest (downloads_dir ex_settings) = Inr ex_file"
    by (simp add: path_defs ex_defs)
  have san': "sanitize_path (cwd (with_row_factory ex_done_world)) ex_dest (downloads_dir ex_settings) = Inr ex_file"
    by (simp add: path_defs ex_defs)
  have shipped: "\<not> named_tuple_row ex_done_world"
    by (simp add: ex_defs)
  have stored: "named_tuple_row (with_row_factory ex_done_world) \<and>
      find (\<lambda>r. source_url r = ex_url) (rows (ledger (with_row_factory ex_done_world))) =
        Some (ex_row COMPLETED 5 (Some (hexdigest (toy_sha256 ex_body)))) \<and>
      (status (ex_row COMPLETED 5 (Some (hexdigest (toy_sha256 ex_body)))) = COMPLETED \<or>
       status (ex_row COMPLETED 5 (Some (hexdigest (toy_sha256 ex_body)))) = DUPLICATE)"
    by (simp add: ex_done_world_def ex_world_def with_row_factory_def ex_row_def)
  have m: "mkdirs ex_done_world = []" "mkdirs (with_row_factory ex_done_world) = []"
    by (simp_all add: ex_defs)
  from download_stored_task[where w = ex_done_world and dest_path = ex_dest and cfg = ex_settings
      and dest = ex_file and ?sha256.0 = toy_sha256 and net = net_whole and url = ex_url] san shipped
  have 1: "download toy_sha256 net_whole ex_settings ex_url ex_dest ex_done_world =
     (Inl row_factory_error, ex_done_world\<lparr>mkdirs := [parent ex_file]\<rparr>)"
    by (simp add: m)
  from download_stored_task[where w = "with_row_factory ex_done_world" and dest_path = ex_dest
      and cfg = ex_settings and dest = ex_file and ?sha256.0 = toy_sha256 and net = net_whole
      and url = ex_url and t = "ex_row COMPLETED 5 (Some (hexdigest (toy_sha256 ex_body)))"] san' stored
  have 2: "download toy_sha256 net_whole ex_settings ex_url ex_dest (with_row_factory ex_done_world) =
     (Inr (ex_row COMPLETED 5 (Some (hexdigest (toy_sha256 ex_body)))),
      (with_row_factory ex_done_world)\<lparr>mkdirs := [parent ex_file]\<rparr>)"
    by (simp add: m)
  from san 1 2 show ?thesis by simp
qed

section \<open>The second downloader\<close>

lemma read_blocks_all: "0 < n \<Longrightarrow> read_blocks n remaining hashed = hashed @ remaining"
proof (induction n remaining hashed rule: read_blocks.induct)
  case (1 n remaining hashed)
  show ?case
  proof (cases "take n remaining = []")
    case True
    with "1.prems" have "remaining = []" by (auto simp: take_eq_Nil)
    then show ?thesis by (simp add: read_blocks.simps)
  next
    case False
    with 1 have "read_blocks n (drop n remaining) (hashed @ take n remaining) =
                 (hashed @ take n remaining) @ drop n remaining"
      by simp
    with False show ?thesis by (simp add: read_blocks.simps[of n remaining hashed])
  qed
qed

lemma hexdigest_length: "length (hexdigest d) = 64"
  by (simp add: hexdigest_def)

lemma hexdigest_not_empty: "hexdigest d \<noteq> []"
  using hexdigest_length[of d] by auto

lemma compute_file_hash_content:
  "files w (resolve (cwd w) path) = Some content \<Longrightarrow>
   compute_file_hash sha256 path w = Inr (hexdigest (sha256 content))"
  by (simp add: compute_file_hash_def read_blocks_all)

lemma fetch_i_requests:
  "requests (snd (fetch_i sha256 net paused headers task w)) =
     requests w @ [\<lparr>req_url = url_i task, range_start = headers\<rparr>]"
  by (auto simp: fetch_i_def session_get_def Let_def on_exception_i_def
           split: http_outcome.splits prod.splits option.splits sum.splits)

text \<open>
  Claim C10. In \<^verbatim>\<open>backend/services/downloader.py\<close>, when a file exists at the
  destination (whatever it holds, nothing included), \<^verbatim>\<open>download\<close> returns a
  \<^verbatim>\<open>COMPLETED\<close> task whose \<^verbatim>\<open>sha256_hash\<close> is the digest of that file's content, sends
  no request and changes no file. So the line that sets the \<^verbatim>\<open>Range\<close> header is never
  reached: whatever the state, a call sends no request or one request without
  \<^verbatim>\<open>Range\<close>.
\<close>

theorem download_i_existing_file:
  "(files w (resolve (cwd w) dest_path) = Some content \<longrightarrow>
      download_i sha256 net paused url dest_path w =
        (\<lparr>url_i = url, dest_path_i = dest_path, status_i = COMPLETED_i, retries_i = 0,
          error_message_i = None, sha256_hash_i = Some (hexdigest (sha256 content))\<rparr>,
         w\<lparr>mkdirs := mkdirs w @ [resolve (cwd w) (parent dest_path)]\<rparr>)
      \<and> requests (snd (download_i sha256 net paused url dest_path w)) = requests w
      \<and> files (snd (download_i sha256 net paused url dest_path w)) = files w)
   \<and> (requests (snd (download_i sha256 net paused url dest_path w)) = requests w \<or>
      requests (snd (download_i sha256 net paused url dest_path w)) =
        requests w @ [\<lparr>req_url = url, range_start = None\<rparr>])"
proof (cases "files w (resolve (cwd w) dest_path)")
  case None
  then show ?thesis
    by (simp add: download_i_def Let_def fetch_i_requests)
next
  case (Some content)
  let ?w1 = "w\<lparr>mkdirs := mkdirs w @ [resolve (cwd w) (parent dest_path)]\<rparr>"
  have "files ?w1 (resolve (cwd ?w1) dest_path) = Some content"
    using Some by simp
  then have "compute_file_hash sha256 dest_path ?w1 = Inr (hexdigest (sha256 content))"
    by (rule compute_file_hash_content)
  with Some show ?thesis
    by (simp add: download_i_def Let_def hexdigest_not_empty)
qed

theorem download_i_existing_file_witness:
  "download_i toy_sha256 net_ranges {} ex_url ex_dest ex_local_world =
     (\<lparr>url_i = ex_url, dest_path_i = ex_dest, status_i = COMPLETED_i, retries_i = 0,
       error_message_i = None, sha256_hash_i = Some (hexdigest (toy_sha256 [1, 2, 3]))\<rparr>,
      ex_local_world\<lparr>mkdirs := [\<lparr>is_absolute = True, parts = [''app'', ''reports'']\<rparr>]\<rparr>)
   \<and> requests (snd (download_i toy_sha256 net_ranges {} ex_url ex_dest ex_local_world)) = []"
proof -
  have f: "files ex_local_world (resolve (cwd ex_local_world) ex_dest) = Some [1, 2, 3]"
    by (simp add: ex_local_world_def ex_world_def ex_dest_def resolve_def)
  have p: "resolve (cwd ex_local_world) (parent ex_dest) = \<lparr>is_absolute = True, parts = [''app'', ''reports'']\<rparr>"
    by (simp add: ex_local_world_def ex_world_def ex_dest_def resolve_def parent_def)
  show ?thesis
    using download_i_existing_file[of ex_local_world ex_dest "[1, 2, 3]" toy_sha256 net_ranges "{}" ex_url] f
    by (simp add: p) (simp add: ex_local_world_def ex_world_def)
qed

text \<open>
  Whenever the second downloader records a digest, it is the digest of the content
  that the destination file has when the call returns: the file is hashed from disk
  after the transfer.
\<close>

lemma on_exception_i_digest: "sha256_hash_i (on_exception_i e task) = sha256_hash_i task"
  by (simp add: on_exception_i_def)

lemma fetch_i_digest:
  assumes fresh: "sha256_hash_i task = None"
      and got: "sha256_hash_i (fst (fetch_i sha256 net paused headers task w)) = Some h"
  shows "\<exists>content. files (snd (fetch_i sha256 net paused headers task w)) (resolve (cwd w) (dest_path_i task)) = Some content \<and>
                   h = hexdigest (sha256 content)"
proof (cases "net (length (requests w)) \<lparr>req_url = url_i task, range_start = headers\<rparr>")
  case (GetRaises e)
  then have "sha256_hash_i (fst (fetch_i sha256 net paused headers task w)) = None"
    by (simp add: fetch_i_def session_get_def Let_def on_exception_i_digest fresh)
  with got show ?thesis by simp
next
  case (Response st content_length chunks err)
  define key where "key = resolve (cwd w) (dest_path_i task)"
  define w1 where "w1 = w\<lparr>requests := requests w @ [\<lparr>req_url = url_i task, range_start = headers\<rparr>]\<rparr>"
  define opened where
    "opened = (if headers \<noteq> None then (case files w1 key of None \<Rightarrow> [] | Some old \<Rightarrow> old) else [])"
  obtain content broke where wc: "write_chunks_i (url_i task \<in> paused) chunks opened = (content, broke)"
    by (cases "write_chunks_i (url_i task \<in> paused) chunks opened")
  define w2 where "w2 = w1\<lparr>files := (files w1)(key \<mapsto> content)\<rparr>"
  have f: "fetch_i sha256 net paused headers task w =
      (if st \<ge> 400 then (on_exception_i (ClientResponseError st (url_i task)) task, w1)
       else (case (if broke then None else err) of
               Some e \<Rightarrow> (on_exception_i e task, w2)
             | None \<Rightarrow>
                 (case compute_file_hash sha256 (dest_path_i task) w2 of
                    Inl e \<Rightarrow> (on_exception_i e task, w2)
                  | Inr h \<Rightarrow> (task\<lparr>sha256_hash_i := Some h, status_i := COMPLETED_i\<rparr>, w2))))"
    unfolding fetch_i_def session_get_def Let_def
    using Response wc unfolding opened_def w1_def key_def w2_def
    by simp
  have k: "files w2 (resolve (cwd w2) (dest_path_i task)) = Some content"
    by (simp add: w2_def w1_def key_def)
  have c: "compute_file_hash sha256 (dest_path_i task) w2 = Inr (hexdigest (sha256 content))"
    using k by (rule compute_file_hash_content)
  have k': "files w2 (resolve (cwd w) (dest_path_i task)) = Some content"
    using k by (simp add: w2_def w1_def)
  from got f c k' show ?thesis
    by (auto simp: on_exception_i_digest fresh split: if_splits option.splits)
qed

lemma download_i_digest:
  assumes "sha256_hash_i (fst (download_i sha256 net paused url dest_path w)) = Some h"
  shows "\<exists>content. files (snd (download_i sha256 net paused url dest_path w)) (resolve (cwd w) dest_path) = Some content \<and>
                   h = hexdigest (sha256 content)"
proof (cases "files w (resolve (cwd w) dest_path)")
  case None
  let ?w1 = "w\<lparr>mkdirs := mkdirs w @ [resolve (cwd w) (parent dest_path)]\<rparr>"
  let ?task = "\<lparr>url_i = url, dest_path_i = dest_path, status_i = DOWNLOADING_i,
                  retries_i = 0, error_message_i = None, sha256_hash_i = None\<rparr>"
  from None have d: "download_i sha256 net paused url dest_path w = fetch_i sha256 net paused None ?task ?w1"
    by (simp add: download_i_def Let_def)
  from fetch_i_digest[of ?task sha256 net paused None ?w1 h] assms d
  show ?thesis by simp
next
  case (Some content)
  let ?w1 = "w\<lparr>mkdirs := mkdirs w @ [resolve (cwd w) (parent dest_path)]\<rparr>"
  have "files ?w1 (resolve (cwd ?w1) dest_path) = Some content"
    using Some by simp
  then have "compute_file_hash sha256 dest_path ?w1 = Inr (hexdigest (sha256 content))"
    by (rule compute_file_hash_content)
  with Some have "download_i sha256 net paused url dest_path w =
      (\<lparr>url_i = url, dest_path_i = dest_path, status_i = COMPLETED_i, retries_i = 0,
        error_message_i = None, sha256_hash_i = Some (hexdigest (sha256 content))\<rparr>, ?w1)"
    by (simp add: download_i_def Let_def hexdigest_not_empty)
  with Some assms show ?thesis
    by auto
qed

section \<open>The code on failing inputs\<close>

text \<open>
  Claim C1. With every connection refused and \<^verbatim>\<open>max_retries = 3\<close>, \<^verbatim>\<open>download\<close> as
  shipped creates the directory and raises the \<^verbatim>\<open>AttributeError\<close> of the ledger
  look-up: no task is created, no attempt is made and no request is sent. The retry
  does not act either, whatever the network and the look-ups do:
  \<^verbatim>\<open>_download_with_retry\<close> makes the one attempt of \<^verbatim>\<open>_perform_download\<close> and leaves
  \<^verbatim>\<open>retry_count\<close> as it was. Called on a stored task with every connection refused,
  it sends one request and raises \<^verbatim>\<open>DownloadFailedError\<close> with \<^verbatim>\<open>retries = 0\<close>; the
  task object is \<^verbatim>\<open>FAILED\<close> and the ledger row is left with status \<^verbatim>\<open>DOWNLOADING\<close>.
  With a row factory under the name \<^verbatim>\<open>aiohttp.NamedTupleRow\<close>, that is what
  \<^verbatim>\<open>download\<close> does: one request, \<^verbatim>\<open>DownloadFailedError\<close> with \<^verbatim>\<open>retries = 0\<close>, and a
  ledger row with status \<^verbatim>\<open>DOWNLOADING\<close>, \<^verbatim>\<open>retry_count = 0\<close> and no error message.
\<close>

theorem retry_eval:
  "download_with_retry sha256 net cfg task dest_path w =
     perform_download sha256 net cfg task dest_path w \<and>
   retry_count (fst (snd (download_with_retry sha256 net cfg task dest_path w))) = retry_count task \<and>
   download sha256 net_refused ex_settings ex_url ex_dest ex_world =
     (Inl row_factory_error, ex_world\<lparr>mkdirs := [parent ex_file]\<rparr>) \<and>
   download_with_retry sha256 net_refused ex_settings (ex_row PENDING 0 None) ex_file ex_pending_world =
     (Some (DownloadFailedError ex_url ''Connection refused'' 0),
      (ex_row FAILED 0 None)\<lparr>error_message := Some ''Connection refused''\<rparr>,
      ex_pending_world\<lparr>ledger := \<lparr>rows = [(ex_row DOWNLOADING 0 None)\<lparr>updated_at := Some 7\<rparr>],
                                   last_rowid = 1\<rparr>,
                       requests := [\<lparr>req_url = ex_url, range_start = None\<rparr>]\<rparr>) \<and>
   download sha256 net_refused ex_settings ex_url ex_dest (with_row_factory ex_world) =
     (Inl (DownloadFailedError ex_url ''Connection refused'' 0),
      (with_row_factory ex_world)\<lparr>mkdirs := [parent ex_file],
               ledger := \<lparr>rows = [\<lparr>task_id = Some 1, source_url = ex_url,
                  local_filepath = ''/data/downloads/reports/a.bin'', status = DOWNLOADING,
                  bytes_downloaded = 0, total_bytes = None, sha256_hash = None,
                  retry_count = 0, error_message = None, created_at = Some 7,
                  updated_at = Some 7\<rparr>], last_rowid = 1\<rparr>,
               requests := [\<lparr>req_url = ex_url, range_start = None\<rparr>]\<rparr>)"
proof (intro conjI)
  show "download_with_retry sha256 net cfg task dest_path w =
          perform_download sha256 net cfg task dest_path w"
    by (rule download_with_retry_eq)
  show "retry_count (fst (snd (download_with_retry sha256 net cfg task dest_path w))) = retry_count task"
    by (rule download_with_retry_retry_count)
  show "download sha256 net_refused ex_settings ex_url ex_dest ex_world =
     (Inl row_factory_error, ex_world\<lparr>mkdirs := [parent ex_file]\<rparr>)"
    by (simp add: download_def get_task_by_url_def Let_def path_defs ex_defs)
  show "download_with_retry sha256 net_refused ex_settings (ex_row PENDING 0 None) ex_file ex_pending_world =
     (Some (DownloadFailedError ex_url ''Connection refused'' 0),
      (ex_row FAILED 0 None)\<lparr>error_message := Some ''Connection refused''\<rparr>,
      ex_pending_world\<lparr>ledger := \<lparr>rows = [(ex_row DOWNLOADING 0 None)\<lparr>updated_at := Some 7\<rparr>],
                                   last_rowid = 1\<rparr>,
                       requests := [\<lparr>req_url = ex_url, range_start = None\<rparr>]\<rparr>)"
    by (simp add: run_defs ledger_defs ex_defs)
  show "download sha256 net_refused ex_settings ex_url ex_dest (with_row_factory ex_world) =
     (Inl (DownloadFailedError ex_url ''Connection refused'' 0),
      (with_row_factory ex_world)\<lparr>mkdirs := [parent ex_file],
               ledger := \<lparr>rows = [\<lparr>task_id = Some 1, source_url = ex_url,
                  local_filepath = ''/data/downloads/reports/a.bin'', status = DOWNLOADING,
                  bytes_downloaded = 0, total_bytes = None, sha256_hash = None,
                  retry_count = 0, error_message = None, created_at = Some 7,
                  updated_at = Some 7\<rparr>], last_rowid = 1\<rparr>,
               requests := [\<lparr>req_url = ex_url, range_start = None\<rparr>]\<rparr>)"
    by (simp add: run_defs path_defs ledger_defs ex_defs)
qed

text \<open>
  Claim C7. Every request times out. \<^verbatim>\<open>download\<close> as shipped raises the
  \<^verbatim>\<open>AttributeError\<close> of the ledger look-up, which is none of the downloader's error
  classes; the ledger holds no task, so none is marked \<^verbatim>\<open>FAILED\<close>.
  \<^verbatim>\<open>_download_with_retry\<close>, called on a stored task, raises \<^verbatim>\<open>DownloadTimeoutError\<close>:
  the task object is \<^verbatim>\<open>FAILED\<close> with the message \<^verbatim>\<open>Timeout\<close>, and the ledger row is
  left with status \<^verbatim>\<open>DOWNLOADING\<close> and no error message. With a row factory under the
  name \<^verbatim>\<open>aiohttp.NamedTupleRow\<close>, \<^verbatim>\<open>download\<close> raises \<^verbatim>\<open>DownloadTimeoutError\<close> and
  leaves the row of its task in that state: the \<^verbatim>\<open>FAILED\<close> status is never written.
\<close>

theorem failure_eval:
  "download sha256 net_timeout ex_settings ex_url ex_dest ex_world =
     (Inl row_factory_error, ex_world\<lparr>mkdirs := [parent ex_file]\<rparr>) \<and>
   rows (ledger (snd (download sha256 net_timeout ex_settings ex_url ex_dest ex_world))) = [] \<and>
   download_with_retry sha256 net_timeout ex_settings (ex_row PENDING 0 None) ex_file ex_pending_world =
     (Some (DownloadTimeoutError ex_url 300),
      (ex_row FAILED 0 None)\<lparr>error_message := Some ''Timeout''\<rparr>,
      ex_pending_world\<lparr>ledger := \<lparr>rows = [(ex_row DOWNLOADING 0 None)\<lparr>updated_at := Some 7\<rparr>],
                                   last_rowid = 1\<rparr>,
                       requests := [\<lparr>req_url = ex_url, range_start = None\<rparr>]\<rparr>) \<and>
   download sha256 net_timeout ex_settings ex_url ex_dest (with_row_factory ex_world) =
     (Inl (DownloadTimeoutError ex_url 300),
      (with_row_factory ex_world)\<lparr>mkdirs := [parent ex_file],
               ledger := \<lparr>rows = [\<lparr>task_id = Some 1, source_url = ex_url,
                  local_filepath = ''/data/downloads/reports/a.bin'', status = DOWNLOADING,
                  bytes_downloaded = 0, total_bytes = None, sha256_hash = None,
                  retry_count = 0, error_message = None, created_at = Some 7,
                  updated_at = Some 7\<rparr>], last_rowid = 1\<rparr>,
               requests := [\<lparr>req_url = ex_url, range_start = None\<rparr>]\<rparr>)"
  by (simp add: run_defs path_defs ledger_defs ex_defs)

text \<open>
  Claim C3. Three bytes of the file are on disk and the ledger holds the task.
  \<^verbatim>\<open>download\<close> as shipped raises the \<^verbatim>\<open>AttributeError\<close> of the ledger look-up: no
  request is sent and the file keeps its three bytes. \<^verbatim>\<open>_perform_download\<close>, called on
  the stored task, sends \<^verbatim>\<open>Range: bytes=3-\<close>. When the server ignores the header and
  sends the five bytes of the whole body with status 200, they are appended to the
  partial file, which ends with eight bytes. When the server answers 416 and then
  sends the body in two chunks, the file ends with the last chunk only. In both cases
  the call then raises the \<^verbatim>\<open>AttributeError\<close> of the look-up by digest. With a row
  factory under the name \<^verbatim>\<open>aiohttp.NamedTupleRow\<close>, \<^verbatim>\<open>download\<close> leaves the same two
  files and returns the task \<^verbatim>\<open>COMPLETED\<close>, with \<^verbatim>\<open>total_bytes = 8\<close> for the first and
  \<^verbatim>\<open>total_bytes = 5\<close> for the second.
\<close>

theorem resume_eval:
  "download sha256 net_whole ex_settings ex_url ex_dest ex_partial_world =
     (Inl row_factory_error, ex_partial_world\<lparr>mkdirs := [parent ex_file]\<rparr>) \<and>
   requests (snd (download sha256 net_whole ex_settings ex_url ex_dest ex_partial_world)) = [] \<and>
   files (snd (download sha256 net_whole ex_settings ex_url ex_dest ex_partial_world)) ex_file =
     Some [1, 2, 3] \<and>
   perform_download sha256 net_whole ex_settings (ex_row DOWNLOADING 3 None) ex_file ex_partial_world =
     (Some row_factory_error,
      (ex_row DOWNLOADING 8 None)\<lparr>total_bytes := Some 8\<rparr>,
      ex_partial_world\<lparr>files := [ex_file \<mapsto> [1, 2, 3, 1, 2, 3, 4, 5]],
                       ledger := \<lparr>rows = [(ex_row DOWNLOADING 3 None)\<lparr>updated_at := Some 7\<rparr>],
                                   last_rowid = 1\<rparr>,
                       requests := [\<lparr>req_url = ex_url, range_start = Some 3\<rparr>]\<rparr>) \<and>
   perform_download sha256 net_restart ex_settings (ex_row DOWNLOADING 3 None) ex_file ex_partial_world =
     (Some row_factory_error,
      (ex_row DOWNLOADING 5 None)\<lparr>total_bytes := Some 5\<rparr>,
      ex_partial_world\<lparr>files := [ex_file \<mapsto> [4, 5]],
                       ledger := \<lparr>rows = [(ex_row DOWNLOADING 3 None)\<lparr>updated_at := Some 7\<rparr>],
                                   last_rowid = 1\<rparr>,
                       requests := [\<lparr>req_url = ex_url, range_start = Some 3\<rparr>,
                                    \<lparr>req_url = ex_url, range_start = None\<rparr>]\<rparr>) \<and>
   requests (snd (download sha256 net_whole ex_settings ex_url ex_dest (with_row_factory ex_partial_world))) =
     [\<lparr>req_url = ex_url, range_start = Some 3\<rparr>] \<and>
   files (snd (download sha256 net_whole ex_settings ex_url ex_dest (with_row_factory ex_partial_world))) ex_file =
     Some [1, 2, 3, 1, 2, 3, 4, 5] \<and>
   fst (download sha256 net_whole ex_settings ex_url ex_dest (with_row_factory ex_partial_world)) =
     Inr \<lparr>task_id = Some 1, source_url = ex_url,
          local_filepath = ''/data/downloads/reports/a.bin'', status = COMPLETED,
          bytes_downloaded = 8, total_bytes = Some 8,
          sha256_hash = Some (hexdigest (sha256 ex_body)),
          retry_count = 0, error_message = None, created_at = Some 3, updated_at = Some 4\<rparr> \<and>
   requests (snd (download sha256 net_restart ex_settings ex_url ex_dest (with_row_factory ex_partial_world))) =
     [\<lparr>req_url = ex_url, range_start = Some 3\<rparr>, \<lparr>req_url = ex_url, range_start = None\<rparr>] \<and>
   files (snd (download sha256 net_restart ex_settings ex_url ex_dest (with_row_factory ex_partial_world))) ex_file =
     Some [4, 5] \<and>
   fst (download sha256 net_restart ex_settings ex_url ex_dest (with_row_factory ex_partial_world)) =
     Inr \<lparr>task_id = Some 1, source_url = ex_url,
          local_filepath = ''/data/downloads/reports/a.bin'', status = COMPLETED,
          bytes_downloaded = 5, total_bytes = Some 5,
          sha256_hash = Some (hexdigest (sha256 ex_body)),
          retry_count = 0, error_message = None, created_at = Some 3, updated_at = Some 4\<rparr>"
  by (simp add: run_defs path_defs ledger_defs ex_defs net_restart_def ex_body_def)


text \<open>
  Claim C2. The content of \<open>ex_url\<close> was fetched before from the mirror, whose task is
  \<^verbatim>\<open>COMPLETED\<close> under the digest of that content. \<^verbatim>\<open>download\<close> as shipped raises the
  \<^verbatim>\<open>AttributeError\<close> of the ledger look-up before any request.
  \<^verbatim>\<open>_perform_download\<close>, called on a task created for the URL, reads the whole body
  and raises the \<^verbatim>\<open>AttributeError\<close> of the look-up by digest: the task is left
  \<^verbatim>\<open>DOWNLOADING\<close> and both files are on disk. With a row factory under the name
  \<^verbatim>\<open>aiohttp.NamedTupleRow\<close>, \<^verbatim>\<open>download\<close> returns the task with status \<^verbatim>\<open>DUPLICATE\<close>
  and the downloaded file is deleted, but the task has no digest, in the task returned
  and in the ledger: only the mirror's row carries it.
\<close>

theorem duplicate_eval:
  "download toy_sha256 net_whole ex_settings ex_url ex_dest ex_mirrored_world =
     (Inl row_factory_error, ex_mirrored_world\<lparr>mkdirs := [parent ex_file]\<rparr>) \<and>
   perform_download toy_sha256 net_whole ex_settings ex_second_row ex_file ex_mirrored_pending_world =
     (Some row_factory_error,
      ex_second_row\<lparr>status := DOWNLOADING, bytes_downloaded := 5, total_bytes := Some 5\<rparr>,
      ex_mirrored_pending_world\<lparr>files := [ex_mirror_file \<mapsto> ex_body, ex_file \<mapsto> ex_body],
         ledger := \<lparr>rows = [ex_mirror_row, ex_second_row\<lparr>status := DOWNLOADING, updated_at := Some 7\<rparr>],
                     last_rowid = 2\<rparr>,
         requests := [\<lparr>req_url = ex_url, range_start = None\<rparr>]\<rparr>) \<and>
   fst (download toy_sha256 net_whole ex_settings ex_url ex_dest (with_row_factory ex_mirrored_world)) =
     Inr \<lparr>task_id = Some 2, source_url = ex_url,
          local_filepath = ''/data/downloads/reports/a.bin'', status = DUPLICATE,
          bytes_downloaded = 5, total_bytes = Some 5, sha256_hash = None,
          retry_count = 0, error_message = None, created_at = None, updated_at = None\<rparr> \<and>
   files (snd (download toy_sha256 net_whole ex_settings ex_url ex_dest (with_row_factory ex_mirrored_world))) =
     [ex_mirror_file \<mapsto> ex_body] \<and>
   map status (rows (ledger (snd (download toy_sha256 net_whole ex_settings ex_url ex_dest
                                     (with_row_factory ex_mirrored_world))))) =
     [COMPLETED, DUPLICATE] \<and>
   map sha256_hash (rows (ledger (snd (download toy_sha256 net_whole ex_settings ex_url ex_dest
                                          (with_row_factory ex_mirrored_world))))) =
     [Some (hexdigest (toy_sha256 ex_body)), None]"
  by (simp add: run_defs path_defs ledger_defs ex_defs ex_body_def)

end
